theory Spec2Isabelle
  imports Complex_Main "HOL-Library.AList" "HOL-Library.Multiset"
begin

section \<open>Conventions of the embedding\<close>

text \<open>
  The Python sources are embedded function by function. A Python \<open>float\<close> is a
  \<open>real\<close>; the arithmetic of the ledger, the engine and the tracker is exact,
  and the ledger functions whose answer depends on rounding are given a second
  time in binary64 arithmetic (suffix \<open>f64\<close>). A \<open>dict\<close> is an association list in insertion order (looked up with
  \<open>map_of\<close>, written with \<open>AList.update\<close>, which replaces in place or appends,
  as a Python dictionary does), a raised exception is the \<open>Inl\<close> branch of a sum.
  A \<open>datetime\<close> is a number of seconds; the calendar date of an instant is the
  number of whole days it contains. Files are components of the state: the
  trade-history CSV is the list of its rows, the JSON files are the
  dictionaries they hold (\<open>None\<close> while the file does not exist). Reading
  and writing the ledger's files succeeds (the handlers around them only
  log); where a failed write matters, in the configuration store, its outcome
  is a parameter. Log lines are not part of the state. Korean status and reason texts are rendered by
  ASCII glosses; f-strings are rendered by a constructor per template that
  carries the interpolated values.
\<close>

datatype error =
    ZeroDivisionError
  | AttributeError
  | TypeError
  | ValueError
  | HTTPError nat
  | OtherError

type_synonym datetime = int

definition date_of :: "datetime \<Rightarrow> int" where
  "date_of t = t div 86400"

section \<open>risk\_manager.py\<close>

subsection \<open>class Position\<close>

record Position =
  market :: string
  entry_price :: real
  quantity :: real
  entry_time :: datetime
  investment_amount :: real
  exit_price :: "real option"
  exit_time :: "datetime option"
  status :: string
  profit_loss :: "real option"

definition new_Position :: "string \<Rightarrow> real \<Rightarrow> real \<Rightarrow> datetime \<Rightarrow> real \<Rightarrow> Position" where
  "new_Position m e q t a =
     \<lparr>market = m, entry_price = e, quantity = q, entry_time = t,
      investment_amount = a, exit_price = None, exit_time = None,
      status = ''open'', profit_loss = None\<rparr>"

definition calculate_current_pnl :: "Position \<Rightarrow> real \<Rightarrow> real" where
  "calculate_current_pnl p current_price =
     quantity p * current_price - investment_amount p"

text \<open>Python's float division raises on a zero divisor.\<close>

definition calculate_pnl_rate :: "Position \<Rightarrow> real \<Rightarrow> error + real" where
  "calculate_pnl_rate p current_price =
     (let pnl = calculate_current_pnl p current_price
      in if investment_amount p = 0 then Inl ZeroDivisionError
         else Inr ((pnl / investment_amount p) * 100))"

definition Position_close_position :: "Position \<Rightarrow> real \<Rightarrow> datetime \<Rightarrow> Position \<times> real" where
  "Position_close_position p x t =
     (let pl = calculate_current_pnl p x
      in (p\<lparr>exit_price := Some x, exit_time := Some t,
             status := ''closed'', profit_loss := Some pl\<rparr>, pl))"

subsection \<open>class RiskManager\<close>

record trade_row =
  row_timestamp :: datetime
  row_market :: string
  row_action :: string
  row_price :: real
  row_quantity :: real
  row_amount :: real
  row_profit_loss :: real
  row_cumulative_pnl :: real
  row_status :: string

record RiskManager =
  daily_loss_limit :: real
  max_positions :: int
  positions :: "(string \<times> Position) list"
  trade_history_file :: "trade_row list"
  daily_pnl_file :: "(int \<rightharpoonup> real) option"
  positions_file :: "(string \<times> Position) list option"

definition get_open_positions :: "RiskManager \<Rightarrow> (string \<times> Position) list" where
  "get_open_positions rm = filter (\<lambda>(m, p). status p = ''open'') (positions rm)"

definition save_positions_to_file :: "RiskManager \<Rightarrow> RiskManager" where
  "save_positions_to_file rm =
     rm\<lparr>positions_file := Some (filter (\<lambda>(m, p). status p = ''open'') (positions rm))\<rparr>"

definition can_open_position :: "RiskManager \<Rightarrow> bool" where
  "can_open_position rm =
     (let active_positions = length (filter (\<lambda>p. status p = ''open'') (map snd (positions rm)))
      in int active_positions < max_positions rm)"

definition get_daily_pnl :: "RiskManager \<Rightarrow> datetime \<Rightarrow> real" where
  "get_daily_pnl rm now =
     (case daily_pnl_file rm of
        None \<Rightarrow> 0
      | Some data \<Rightarrow> (case data (date_of now) of None \<Rightarrow> 0 | Some v \<Rightarrow> v))"

definition update_daily_pnl :: "RiskManager \<Rightarrow> datetime \<Rightarrow> real \<Rightarrow> RiskManager" where
  "update_daily_pnl rm now pl =
     (let data = (case daily_pnl_file rm of None \<Rightarrow> Map.empty | Some d \<Rightarrow> d);
          today = date_of now;
          old = (case data today of None \<Rightarrow> 0 | Some v \<Rightarrow> v)
      in rm\<lparr>daily_pnl_file := Some (data(today \<mapsto> old + pl))\<rparr>)"

definition record_trade ::
  "RiskManager \<Rightarrow> datetime \<Rightarrow> string \<Rightarrow> string \<Rightarrow> real \<Rightarrow> real \<Rightarrow> real \<Rightarrow> real \<Rightarrow> string \<Rightarrow> RiskManager" where
  "record_trade rm now m action price qty amount pl st =
     (let cumulative_pnl = get_daily_pnl rm now + pl
      in rm\<lparr>trade_history_file := trade_history_file rm @
           [\<lparr>row_timestamp = now, row_market = m, row_action = action,
             row_price = price, row_quantity = qty, row_amount = amount,
             row_profit_loss = pl, row_cumulative_pnl = cumulative_pnl,
             row_status = st\<rparr>]\<rparr>)"

definition is_open_in :: "RiskManager \<Rightarrow> string \<Rightarrow> bool" where
  "is_open_in rm m =
     (case map_of (positions rm) m of None \<Rightarrow> False | Some p \<Rightarrow> status p = ''open'')"

definition add_position ::
  "RiskManager \<Rightarrow> datetime \<Rightarrow> string \<Rightarrow> real \<Rightarrow> real \<Rightarrow> real \<Rightarrow> bool \<times> RiskManager" where
  "add_position rm now m e q a =
     (if \<not> can_open_position rm then (False, rm)
      else if is_open_in rm m then (False, rm)
      else
        let position = new_Position m e q now a;
            rm1 = rm\<lparr>positions := AList.update m position (positions rm)\<rparr>;
            rm2 = record_trade rm1 now m ''BUY'' e q a 0 ''position entered'';
            rm3 = save_positions_to_file rm2
        in (True, rm3))"

definition close_position ::
  "RiskManager \<Rightarrow> datetime \<Rightarrow> string \<Rightarrow> real \<Rightarrow> real option \<times> RiskManager" where
  "close_position rm now m x =
     (if \<not> is_open_in rm m then (None, rm)
      else
        case map_of (positions rm) m of
          None \<Rightarrow> (None, rm)
        | Some position \<Rightarrow>
            let (closed, pl) = Position_close_position position x now;
                rm1 = rm\<lparr>positions := AList.update m closed (positions rm)\<rparr>;
                rm2 = record_trade rm1 now m ''SELL'' x (quantity closed)
                        (quantity closed * x) pl ''position closed'';
                rm3 = update_daily_pnl rm2 now pl;
                rm4 = save_positions_to_file rm3
            in (Some pl, rm4))"

definition get_position_pnl ::
  "RiskManager \<Rightarrow> string \<Rightarrow> real \<Rightarrow> error + (real \<times> real) option" where
  "get_position_pnl rm m current_price =
     (if \<not> is_open_in rm m then Inr None
      else
        case map_of (positions rm) m of
          None \<Rightarrow> Inr None
        | Some position \<Rightarrow>
            (case calculate_pnl_rate position current_price of
               Inl err \<Rightarrow> Inl err
             | Inr pnl_rate \<Rightarrow>
                 Inr (Some (calculate_current_pnl position current_price, pnl_rate))))"

datatype reason =
    NoReason
  | TakeProfit real
  | StopLoss real
  | AiForecast real real
  | AiSwap int

definition should_sell ::
  "RiskManager \<Rightarrow> string \<Rightarrow> real \<Rightarrow> real \<Rightarrow> real \<Rightarrow> error + (bool \<times> reason)" where
  "should_sell rm m current_price profit_rate loss_rate =
     (case get_position_pnl rm m current_price of
        Inl err \<Rightarrow> Inl err
      | Inr None \<Rightarrow> Inr (False, NoReason)
      | Inr (Some (pnl, pnl_rate)) \<Rightarrow>
          let profit_threshold = profit_rate * 100;
              loss_threshold = loss_rate * 100
          in if pnl_rate \<ge> profit_threshold then Inr (True, TakeProfit pnl_rate)
             else if pnl_rate \<le> loss_threshold then Inr (True, StopLoss pnl_rate)
             else Inr (False, NoReason))"


subsection \<open>Sample ledgers\<close>

definition ledger_two_open :: RiskManager where
  "ledger_two_open =
     \<lparr>daily_loss_limit = - 50000, max_positions = 3,
      positions = [(''KRW-BTC'', new_Position ''KRW-BTC'' 100 1 0 100),
                   (''KRW-ETH'', new_Position ''KRW-ETH'' 50 2 0 100)],
      trade_history_file = [], daily_pnl_file = None, positions_file = None\<rparr>"

definition ledger_one_open :: RiskManager where
  "ledger_one_open =
     \<lparr>daily_loss_limit = - 50000, max_positions = 3,
      positions = [(''KRW-BTC'', new_Position ''KRW-BTC'' 100 2 0 200)],
      trade_history_file = [], daily_pnl_file = None, positions_file = None\<rparr>"

subsection \<open>Sequences of ledger calls and the two records of realized P\&L\<close>









subsection \<open>The ledger in binary64 arithmetic\<close>

text \<open>
  A Python \<open>float\<close> is an IEEE binary64 number and every arithmetic operation
  returns the exact result rounded to the nearest such number, ties to the
  even significand. \<open>f64_exponent x\<close> is the binary exponent whose quantum
  applies to \<open>x\<close>: the \<open>e\<close> with \<open>2^e \<le> |x| < 2^(e+1)\<close>, found by halving
  or doubling, and \<open>- 1022\<close> for every smaller \<open>x\<close> (the subnormal range). The
  quantum is \<open>2^(e - 52)\<close>. Results beyond the largest binary64 number, where
  Python gives infinity, are outside the model.
\<close>

fun scale_down :: "nat \<Rightarrow> real \<Rightarrow> int" where
  "scale_down 0 x = 0"
| "scale_down (Suc n) x = (if 2 \<le> x then 1 + scale_down n (x / 2) else 0)"

fun scale_up :: "nat \<Rightarrow> real \<Rightarrow> int" where
  "scale_up 0 x = 0"
| "scale_up (Suc n) x = (if x < 1 then scale_up n (x * 2) - 1 else 0)"

definition f64_exponent :: "real \<Rightarrow> int" where
  "f64_exponent x = (if 1 \<le> \<bar>x\<bar> then scale_down 1023 \<bar>x\<bar> else scale_up 1022 \<bar>x\<bar>)"

definition round_half_even :: "real \<Rightarrow> int" where
  "round_half_even y =
     (let f = \<lfloor>y\<rfloor>; d = y - of_int f
      in if d < 1 / 2 then f else if 1 / 2 < d then f + 1 else if even f then f else f + 1)"

definition f64_round :: "real \<Rightarrow> real" where
  "f64_round x =
     (let u = 2 powi (f64_exponent x - 52)
      in of_int (round_half_even (x / u)) * u)"















section \<open>config\_manager.py\<close>

text \<open>
  Configuration values are Python objects; \<open>PyTime t\<close> stands for the ISO
  text of the instant \<open>t\<close>. Whether writing the configuration file succeeds
  is decided by the environment and is a parameter of \<open>save_config\<close>; a
  failed write leaves the file as it was.
\<close>

datatype pyval = PyNone | PyNum real | PyStr string | PyBool bool | PyTime datetime

record ConfigManager =
  config :: "(string \<times> pyval) list"
  config_file :: "(string \<times> pyval) list option"

text \<open>\<open>dict.get(key)\<close>: \<open>None\<close> for a missing key.\<close>

definition dict_get :: "(string \<times> pyval) list \<Rightarrow> string \<Rightarrow> pyval" where
  "dict_get d key = (case map_of d key of None \<Rightarrow> PyNone | Some v \<Rightarrow> v)"

text \<open>\<open>dict.update(other)\<close>: every pair of \<open>other\<close> is stored, in its order.\<close>

definition dict_update :: "(string \<times> pyval) list \<Rightarrow> (string \<times> pyval) list \<Rightarrow> (string \<times> pyval) list" where
  "dict_update d other = fold (\<lambda>(k, v) acc. AList.update k v acc) other d"

text \<open>
  \<open>save_config()\<close> called without an argument works on \<open>self.config\<close> itself:
  the \<open>last_updated\<close> entry is written into that dictionary before the file
  is opened, so it is there whether or not the write succeeds.
\<close>

definition save_config :: "ConfigManager \<Rightarrow> datetime \<Rightarrow> bool \<Rightarrow> bool \<times> ConfigManager" where
  "save_config cm now write_ok =
     (let cfg = AList.update ''last_updated'' (PyTime now) (config cm)
      in if write_ok then (True, cm\<lparr>config := cfg, config_file := Some cfg\<rparr>)
         else (False, cm\<lparr>config := cfg\<rparr>))"

definition config_set :: "ConfigManager \<Rightarrow> datetime \<Rightarrow> bool \<Rightarrow> string \<Rightarrow> pyval \<Rightarrow> bool \<times> ConfigManager" where
  "config_set cm now write_ok key v =
     (let old_value = dict_get (config cm) key;
          cm1 = cm\<lparr>config := AList.update key v (config cm)\<rparr>;
          (saved, cm2) = save_config cm1 now write_ok
      in if saved then (True, cm2)
         else (False, cm2\<lparr>config := AList.update key old_value (config cm2)\<rparr>))"

definition restore_old_values :: "(string \<times> pyval) list \<Rightarrow> (string \<times> pyval) list \<Rightarrow> (string \<times> pyval) list" where
  "restore_old_values old_values cfg =
     fold (\<lambda>(key, old_value) acc. if old_value \<noteq> PyNone then AList.update key old_value acc else acc)
       old_values cfg"

definition update_multiple ::
  "ConfigManager \<Rightarrow> datetime \<Rightarrow> bool \<Rightarrow> (string \<times> pyval) list \<Rightarrow> bool \<times> ConfigManager" where
  "update_multiple cm now write_ok updates =
     (let old_values = fold (\<lambda>(key, v) acc. AList.update key (dict_get (config cm) key) acc) updates [];
          cm1 = cm\<lparr>config := dict_update (config cm) updates\<rparr>;
          (saved, cm2) = save_config cm1 now write_ok
      in if saved then (True, cm2)
         else (False, cm2\<lparr>config := restore_old_values old_values (config cm2)\<rparr>))"

definition sample_config :: ConfigManager where
  "sample_config =
     \<lparr>config = [(''max_positions'', PyNum 3), (''last_updated'', PyTime 0)],
      config_file = Some [(''max_positions'', PyNum 3), (''last_updated'', PyTime 0)]\<rparr>"

section \<open>trade\_utils.py\<close>

subsection \<open>The retry decorator\<close>

text \<open>
  What the wrapped function does on one attempt: it returns a value, raises
  \<open>requests.exceptions.HTTPError\<close> with a status code, or raises another
  exception. The wrapper's effects are recorded as a trace: the call of the
  rate limiter, the call of the wrapped function, and each \<open>time.sleep\<close> of
  the back-off with its argument. \<open>jitter n\<close> is the value that
  \<open>random.uniform(0, 1)\<close> returns on attempt \<open>n\<close>.
\<close>

datatype 'a outcome = Returns 'a | RaisesHTTP nat | Raises


fun outcome_error :: "'a outcome \<Rightarrow> error" where
  "outcome_error (RaisesHTTP code) = HTTPError code"
| "outcome_error _ = OtherError"










subsection \<open>class MarketAnalyzer\<close>

text \<open>
  The exchange as the analyzer sees it: the answer of \<open>/v1/market/all\<close> (the
  market names it lists, or the exception of the request), the answer of
  \<open>/v1/ticker\<close> for a list of markets, and what \<open>UpbitAPI.get_current_price\<close>
  gives for a market. A ticker field read with \<open>ticker.get(name, default)\<close>
  is optional.
\<close>

record ticker =
  tk_market :: string
  tk_acc_trade_volume_24h :: "real option"
  tk_acc_trade_price_24h :: "real option"
  tk_trade_price :: "real option"
  tk_signed_change_rate :: "real option"
  tk_prev_closing_price :: "real option"

record ranked_market =
  rk_market :: string
  rk_trade_volume :: real
  rk_trade_price :: real
  rk_current_price :: real
  rk_change_rate :: real
  rk_volume_power :: real

record exchange =
  market_all :: "error + string list"
  ticker_of :: "string list \<Rightarrow> error + ticker list"
  api_get_current_price :: "string \<Rightarrow> error + real option"

text \<open>The slice \<open>xs[:n]\<close>; a negative \<open>n\<close> counts from the end.\<close>

definition slice_to :: "int \<Rightarrow> 'a list \<Rightarrow> 'a list" where
  "slice_to n xs = (if 0 \<le> n then take (nat n) xs else take (length xs - nat (- n)) xs)"

definition starts_with_KRW :: "string \<Rightarrow> bool" where
  "starts_with_KRW m = (take 4 m = ''KRW-'')"

definition get_or :: "real option \<Rightarrow> real \<Rightarrow> real" where
  "get_or field dflt = (case field of None \<Rightarrow> dflt | Some v \<Rightarrow> v)"

definition ranking_entry :: "ticker \<Rightarrow> ranked_market" where
  "ranking_entry t =
     \<lparr>rk_market = tk_market t,
      rk_trade_volume = get_or (tk_acc_trade_volume_24h t) 0,
      rk_trade_price = get_or (tk_acc_trade_price_24h t) 0,
      rk_current_price = get_or (tk_trade_price t) 0,
      rk_change_rate = get_or (tk_signed_change_rate t) 0,
      rk_volume_power = get_or (tk_acc_trade_volume_24h t) 0 / max (get_or (tk_prev_closing_price t) 1) 1\<rparr>"

text \<open>The body of the \<open>try\<close> block of \<open>get_daily_trade_volume_ranking\<close>.\<close>

definition ranking_from_exchange :: "exchange \<Rightarrow> int \<Rightarrow> error + ranked_market list" where
  "ranking_from_exchange ex limit =
     (case market_all ex of
        Inl err \<Rightarrow> Inl err
      | Inr all_markets \<Rightarrow>
          let krw_markets = filter starts_with_KRW all_markets
          in case ticker_of ex (slice_to 100 krw_markets) of
               Inl err \<Rightarrow> Inl err
             | Inr tickers \<Rightarrow>
                 let krw_tickers = map ranking_entry
                        (filter (\<lambda>t. starts_with_KRW (tk_market t)
                                      \<and> get_or (tk_acc_trade_price_24h t) 0 > 0) tickers);
                     sorted_tickers = sort_key (\<lambda>x. - rk_trade_price x) krw_tickers
                 in Inr (slice_to limit sorted_tickers))"

definition fallback_markets :: "string list" where
  "fallback_markets =
     [''KRW-BTC'', ''KRW-ETH'', ''KRW-XRP'', ''KRW-ADA'', ''KRW-DOGE'',
      ''KRW-AVAX'', ''KRW-DOT'', ''KRW-MATIC'', ''KRW-SOL'', ''KRW-SHIB'']"

text \<open>
  The attributes of a \<open>MarketAnalyzer\<close> object: the field set by \<open>__init__\<close>
  and the methods of the class. Looking up any other name on \<open>self\<close> raises
  \<open>AttributeError\<close>. \<open>get_current_price\<close> is a method of \<open>UpbitAPI\<close>, reached
  as \<open>self.api.get_current_price\<close>; \<open>_get_fallback_top_markets\<close> asks for
  \<open>self.get_current_price\<close>.
\<close>

definition MarketAnalyzer_attributes :: "string list" where
  "MarketAnalyzer_attributes =
     [''api'', ''__init__'', ''detect_volume_spike'', ''get_price_change'',
      ''get_tradeable_markets'', ''get_daily_trade_volume_ranking'',
      ''_get_fallback_top_markets'']"

definition self_get_current_price :: "exchange \<Rightarrow> string \<Rightarrow> error + real option" where
  "self_get_current_price ex m =
     (if ''get_current_price'' \<in> set MarketAnalyzer_attributes
      then api_get_current_price ex m
      else Inl AttributeError)"

definition fallback_entry :: "string \<Rightarrow> real \<Rightarrow> ranked_market" where
  "fallback_entry m price =
     \<lparr>rk_market = m, rk_trade_volume = 0, rk_trade_price = 0,
      rk_current_price = price, rk_change_rate = 0, rk_volume_power = 0\<rparr>"

fun fallback_loop :: "exchange \<Rightarrow> string list \<Rightarrow> ranked_market list \<Rightarrow> ranked_market list" where
  "fallback_loop ex [] result = result"
| "fallback_loop ex (m # ms) result =
     (case self_get_current_price ex m of
        Inl err \<Rightarrow> fallback_loop ex ms result
      | Inr None \<Rightarrow> fallback_loop ex ms result
      | Inr (Some current_price) \<Rightarrow>
          if current_price \<noteq> 0
          then fallback_loop ex ms (result @ [fallback_entry m current_price])
          else fallback_loop ex ms result)"

definition get_fallback_top_markets :: "exchange \<Rightarrow> int \<Rightarrow> ranked_market list" where
  "get_fallback_top_markets ex limit = fallback_loop ex (slice_to limit fallback_markets) []"

definition get_daily_trade_volume_ranking :: "exchange \<Rightarrow> int \<Rightarrow> ranked_market list" where
  "get_daily_trade_volume_ranking ex limit =
     (case ranking_from_exchange ex limit of
        Inr top_markets \<Rightarrow> top_markets
      | Inl err \<Rightarrow> get_fallback_top_markets ex limit)"

text \<open>An outage of the market list while the price endpoint still answers.\<close>

definition outage_exchange :: exchange where
  "outage_exchange =
     \<lparr>market_all = Inl (HTTPError 503),
      ticker_of = (\<lambda>ms. Inl (HTTPError 503)),
      api_get_current_price = (\<lambda>m. Inr (Some 50000))\<rparr>"

section \<open>ai\_performance\_tracker.py\<close>

text \<open>
  The table \<open>ai_recommendations\<close> is the list of its rows in rowid order.
  Only the columns that the functions below read or write are kept;
  timestamps are instants instead of their ISO text. \<open>NULL\<close> is \<open>None\<close>.
\<close>

record recommendation_row =
  rec_id :: int
  rec_timestamp :: datetime
  rec_market :: string
  rec_recommended_coin :: string
  rec_confidence :: int
  rec_executed :: bool
  rec_execution_price :: "real option"
  rec_exit_price :: "real option"
  rec_exit_timestamp :: "datetime option"
  rec_actual_return :: "real option"
  rec_holding_days :: "int option"
  rec_success :: "bool option"

text \<open>
  The body of the \<open>try\<close> block of \<open>update_recommendation_result\<close>. With an
  exit price, the return is computed first: subtracting \<open>None\<close> from a float
  raises \<open>TypeError\<close>, dividing by a zero execution price raises
  \<open>ZeroDivisionError\<close>, in both cases before any statement has been sent to
  the database.
\<close>

definition update_recommendation_body ::
  "recommendation_row list \<Rightarrow> datetime \<Rightarrow> int \<Rightarrow> real option \<Rightarrow> real option \<Rightarrow> datetime option
     \<Rightarrow> error + recommendation_row list" where
  "update_recommendation_body db now rid execution_price exit_price' exit_timestamp' =
     (case exit_price' of
        None \<Rightarrow>
          Inr (map (\<lambda>r. if rec_id r = rid
                         then r\<lparr>rec_executed := True, rec_execution_price := execution_price\<rparr>
                         else r) db)
      | Some xp \<Rightarrow>
          (case execution_price of
             None \<Rightarrow> Inl TypeError
           | Some ep \<Rightarrow>
               if ep = 0 then Inl ZeroDivisionError
               else
                 let actual_return = ((xp - ep) / ep) * 100;
                     success = (actual_return > 0);
                     holding_days =
                       (case find (\<lambda>r. rec_id r = rid) db of
                          Some row \<Rightarrow>
                            let end_time = (case exit_timestamp' of Some t \<Rightarrow> t | None \<Rightarrow> now)
                            in (end_time - rec_timestamp row) div 86400
                        | None \<Rightarrow> 0)
                 in Inr (map (\<lambda>r. if rec_id r = rid
                                then r\<lparr>rec_executed := True, rec_execution_price := Some ep,
                                       rec_exit_price := Some xp, rec_exit_timestamp := exit_timestamp',
                                       rec_actual_return := Some actual_return,
                                       rec_holding_days := Some holding_days,
                                       rec_success := Some success\<rparr>
                                else r) db)))"

definition update_recommendation_result ::
  "recommendation_row list \<Rightarrow> datetime \<Rightarrow> int \<Rightarrow> real option \<Rightarrow> real option \<Rightarrow> datetime option
     \<Rightarrow> bool \<times> recommendation_row list" where
  "update_recommendation_result db now rid execution_price exit_price' exit_timestamp' =
     (case update_recommendation_body db now rid execution_price exit_price' exit_timestamp' of
        Inr db' \<Rightarrow> (True, db')
      | Inl err \<Rightarrow> (False, db))"

definition get_recent_recommendations :: "recommendation_row list \<Rightarrow> nat \<Rightarrow> recommendation_row list" where
  "get_recent_recommendations db limit = take limit (sort_key (\<lambda>r. - rec_timestamp r) db)"

section \<open>trade\_bot.py: class CoinButler\<close>

text \<open>
  The engine's state: the ledger, the recommendation table, the analyzer
  (\<open>None\<close> without an API key, else its \<open>enabled\<close> flag), the attribute
  \<open>last_swap_check\<close> (\<open>None\<close> until it is first assigned), and three traces
  of what the engine did: orders the exchange accepted, notifications handed
  to the notifier, and the calls of \<open>update_recommendation_result\<close> and of
  \<open>_analyze_position_swap\<close> with their arguments.
\<close>

datatype order = SellOrder string real | BuyOrder string real

datatype notification =
    NotifySell string real real real real reason
  | NotifyBuy string real real
  | NotifyRebalancing string string reason real

record tracker_call =
  call_id :: int
  call_execution_price :: "real option"
  call_exit_price :: "real option"
  call_exit_timestamp :: "datetime option"
  call_result :: bool

record losing_position =
  lp_market :: string
  lp_entry_price :: real
  lp_current_price :: real
  lp_pnl_rate :: real
  lp_pnl :: real
  lp_entry_time :: datetime
  lp_days_held :: int

record CoinButler =
  risk_manager :: RiskManager
  tracker_db :: "recommendation_row list"
  ai_analyzer :: "bool option"
  last_swap_check :: "datetime option"
  orders :: "order list"
  notifications :: "notification list"
  tracker_calls :: "tracker_call list"
  swap_analyses :: "losing_position list list"

record order_info =
  oi_state :: string
  oi_executed_volume :: "real option"
  oi_avg_price :: "real option"

text \<open>
  The exchange as the engine sees it: the current price of a market, the uuid
  under which a market sell order was accepted (\<open>None\<close> when
  \<open>place_sell_order\<close> fails), and the order information at the first look and
  at the second look five seconds later.
\<close>

record broker =
  price_of :: "string \<Rightarrow> error + real option"
  sell_order_uuid :: "string \<Rightarrow> real \<Rightarrow> string option"
  order_info_first :: "string \<Rightarrow> order_info option"
  order_info_second :: "string \<Rightarrow> order_info option"

record settings =
  st_profit_rate :: real
  st_loss_rate :: real
  st_ai_confidence_threshold :: int

text \<open>Python truth of a value, and \<open>float(x)\<close>; a text that is not a number raises.\<close>

fun truthy :: "pyval \<Rightarrow> bool" where
  "truthy PyNone = False"
| "truthy (PyNum x) = (x \<noteq> 0)"
| "truthy (PyStr s) = (s \<noteq> [])"
| "truthy (PyBool b) = b"
| "truthy (PyTime t) = True"

fun py_float :: "pyval \<Rightarrow> error + real" where
  "py_float (PyNum x) = Inr x"
| "py_float (PyBool b) = Inr (if b then 1 else 0)"
| "py_float PyNone = Inl TypeError"
| "py_float (PyStr s) = Inl ValueError"
| "py_float (PyTime t) = Inl ValueError"

text \<open>
  \<open>_update_ai_recommendation_exit\<close>: the first of the 50 most recent
  recommendations that is for the market, executed and without a return makes
  the engine look up the newest executed row of the market without exit
  price; if there is one, \<open>update_recommendation_result\<close> is called with
  \<open>None\<close> as execution price and the loop ends.
\<close>

definition newest_open_recommendation :: "recommendation_row list \<Rightarrow> string \<Rightarrow> int option" where
  "newest_open_recommendation db m =
     (case sort_key (\<lambda>r. - rec_timestamp r)
             (filter (\<lambda>r. rec_market r = m \<and> rec_executed r \<and> rec_exit_price r = None) db) of
        [] \<Rightarrow> None
      | r # rest \<Rightarrow> Some (rec_id r))"

fun exit_update_loop ::
  "CoinButler \<Rightarrow> datetime \<Rightarrow> string \<Rightarrow> real \<Rightarrow> recommendation_row list \<Rightarrow> CoinButler" where
  "exit_update_loop cb now m exit_price' [] = cb"
| "exit_update_loop cb now m exit_price' (r # recent_recs) =
     (if rec_market r = m \<and> rec_executed r \<and> rec_actual_return r = None then
        (case newest_open_recommendation (tracker_db cb) m of
           Some recommendation_id \<Rightarrow>
             let (success, db') = update_recommendation_result (tracker_db cb) now
                                    recommendation_id None (Some exit_price') (Some now)
             in cb\<lparr>tracker_db := db',
                    tracker_calls := tracker_calls cb @
                      [\<lparr>call_id = recommendation_id, call_execution_price = None,
                        call_exit_price = Some exit_price', call_exit_timestamp = Some now,
                        call_result = success\<rparr>]\<rparr>
         | None \<Rightarrow> exit_update_loop cb now m exit_price' recent_recs)
      else exit_update_loop cb now m exit_price' recent_recs)"

definition update_ai_recommendation_exit :: "CoinButler \<Rightarrow> datetime \<Rightarrow> string \<Rightarrow> real \<Rightarrow> CoinButler" where
  "update_ai_recommendation_exit cb now m exit_price' =
     exit_update_loop cb now m exit_price' (get_recent_recommendations (tracker_db cb) 50)"

text \<open>
  \<open>_execute_sell\<close>. The function has no \<open>return\<close> statement with a value:
  the early exits are bare \<open>return\<close>s and every other path falls off the end
  or ends in the handler of its \<open>try\<close>, so the caller always receives
  \<open>None\<close>. \<open>current_price\<close> is used only as the default of the average
  price; the rebalancing path passes the text \<open>REBALANCING\<close> for it.
\<close>

definition execute_sell ::
  "CoinButler \<Rightarrow> broker \<Rightarrow> datetime \<Rightarrow> string \<Rightarrow> pyval \<Rightarrow> reason \<Rightarrow> CoinButler \<times> pyval" where
  "execute_sell cb br now m current_price rsn =
     (case map_of (positions (risk_manager cb)) m of
        None \<Rightarrow> (cb, PyNone)
      | Some position \<Rightarrow>
          if status position \<noteq> ''open'' then (cb, PyNone)
          else
            case sell_order_uuid br m (quantity position) of
              None \<Rightarrow> (cb, PyNone)
            | Some uuid \<Rightarrow>
                let cb1 = cb\<lparr>orders := orders cb @ [SellOrder m (quantity position)]\<rparr>;
                    order_info =
                      (case order_info_first br uuid of
                         None \<Rightarrow> None
                       | Some oi \<Rightarrow>
                           if oi_state oi = ''wait'' then order_info_second br uuid else Some oi);
                    is_filled =
                      (case order_info of
                         None \<Rightarrow> False
                       | Some oi \<Rightarrow> oi_state oi = ''done'' \<or> get_or (oi_executed_volume oi) 0 > 0)
                in if \<not> is_filled then (cb1, PyNone)
                   else
                     case (case order_info of
                             None \<Rightarrow> py_float current_price
                           | Some oi \<Rightarrow>
                               (case oi_avg_price oi of
                                  Some a \<Rightarrow> Inr a
                                | None \<Rightarrow> py_float current_price)) of
                       Inl err \<Rightarrow> (cb1, PyNone)
                     | Inr avg_price \<Rightarrow>
                         let (profit_loss', rm') = close_position (risk_manager cb1) now m avg_price;
                             cb2 = cb1\<lparr>risk_manager := rm'\<rparr>
                         in case profit_loss' of
                              None \<Rightarrow> (cb2, PyNone)
                            | Some pl \<Rightarrow>
                                if investment_amount position = 0 then (cb2, PyNone)
                                else
                                  let profit_rate = (pl / investment_amount position) * 100;
                                      cb3 = cb2\<lparr>notifications := notifications cb2 @
                                              [NotifySell m avg_price (quantity position * avg_price)
                                                 pl profit_rate rsn]\<rparr>;
                                      cb4 = update_ai_recommendation_exit cb3 now m avg_price
                                  in (cb4, PyNone))"

subsection \<open>Rebalancing\<close>

record analysis =
  an_market :: "string option"
  an_recommended_coin :: "string option"
  an_expected_profit :: "real option"
  an_confidence :: "int option"

record decision =
  sell_market :: string
  sell_position :: Position
  sell_reason :: reason
  buy_analysis :: "analysis option"

text \<open>
  \<open>_execute_buy(self, candidate, settings)\<close> is taken as a parameter: what it
  does to the engine and what it returns. Calling it with a number of
  positional arguments other than two raises \<open>TypeError\<close> before its body
  runs.
\<close>

definition call_execute_buy ::
  "(CoinButler \<Rightarrow> analysis \<Rightarrow> settings \<Rightarrow> CoinButler \<times> pyval) \<Rightarrow> nat \<Rightarrow> CoinButler \<Rightarrow> analysis \<Rightarrow> settings
     \<Rightarrow> error + CoinButler \<times> pyval" where
  "call_execute_buy execute_buy positional cb candidate st =
     (if positional = 2 then Inr (execute_buy cb candidate st) else Inl TypeError)"

definition str_or :: "string option \<Rightarrow> string \<Rightarrow> string" where
  "str_or field dflt = (case field of None \<Rightarrow> dflt | Some s \<Rightarrow> s)"

text \<open>
  \<open>_execute_rebalancing\<close>. The sell is called with \<open>REBALANCING\<close> in the place
  of the current price; the buy is called as
  \<open>self._execute_buy(buy_market, buy_analysis, settings)\<close>, with three
  positional arguments. An exception anywhere ends the function in its
  handler, which only logs.
\<close>

definition execute_rebalancing ::
  "(CoinButler \<Rightarrow> analysis \<Rightarrow> settings \<Rightarrow> CoinButler \<times> pyval) \<Rightarrow> CoinButler \<Rightarrow> broker \<Rightarrow> datetime
     \<Rightarrow> decision \<Rightarrow> settings \<Rightarrow> CoinButler" where
  "execute_rebalancing execute_buy cb br now d st =
     (let (cb1, success) = execute_sell cb br now (sell_market d) (PyStr ''REBALANCING'') (sell_reason d)
      in case buy_analysis d of
           None \<Rightarrow> cb1
         | Some ba \<Rightarrow>
             if \<not> truthy success then cb1
             else
               let m0 = (if str_or (an_market ba) [] \<noteq> [] then str_or (an_market ba) []
                         else str_or (an_recommended_coin ba) []);
                   buy_market = (if m0 \<noteq> [] \<and> \<not> starts_with_KRW m0 then ''KRW-'' @ m0 else m0)
               in if buy_market = [] then cb1
                  else
                    case call_execute_buy execute_buy 3 cb1 ba st of
                      Inl err \<Rightarrow> cb1
                    | Inr (cb2, buy_success) \<Rightarrow>
                        if truthy buy_success
                        then cb2\<lparr>notifications := notifications cb2 @
                                 [NotifyRebalancing (sell_market d) buy_market (sell_reason d)
                                    (get_or (an_expected_profit ba) 0)]\<rparr>
                        else cb2)"

subsection \<open>Position management\<close>

text \<open>
  The attributes of a \<open>Position\<close> object: its fields and the methods of the
  class. \<open>_manage_positions\<close> treats the position as a dictionary:
  \<open>position.get('entry_time', ...)\<close> looks up the attribute \<open>get\<close>, and
  \<open>position['entry_price']\<close> needs \<open>__getitem__\<close>.
\<close>

definition Position_attributes :: "string list" where
  "Position_attributes =
     [''market'', ''entry_price'', ''quantity'', ''entry_time'', ''investment_amount'',
      ''exit_price'', ''exit_time'', ''status'', ''profit_loss'', ''__init__'',
      ''calculate_current_pnl'', ''calculate_pnl_rate'', ''close_position'', ''to_dict'']"

definition position_get_entry_time :: "Position \<Rightarrow> error + datetime" where
  "position_get_entry_time p =
     (if ''get'' \<in> set Position_attributes then Inr (entry_time p) else Inl AttributeError)"

definition position_item_entry_price :: "Position \<Rightarrow> error + real" where
  "position_item_entry_price p =
     (if ''__getitem__'' \<in> set Position_attributes then Inr (entry_price p) else Inl TypeError)"

text \<open>
  One iteration of the loop over the open positions. An exception raised in
  the iteration is caught by its handler, which logs and goes on to the next
  position; the lookup of \<open>get\<close> stands before the inner \<open>try\<close>.
\<close>

definition manage_one ::
  "CoinButler \<Rightarrow> broker \<Rightarrow> datetime \<Rightarrow> settings \<Rightarrow> string \<times> Position \<Rightarrow> losing_position list
     \<Rightarrow> CoinButler \<times> losing_position list" where
  "manage_one cb br now st mp losing_positions =
     (let m = fst mp; position = snd mp
      in case price_of br m of
           Inl err \<Rightarrow> (cb, losing_positions)
         | Inr None \<Rightarrow> (cb, losing_positions)
         | Inr (Some current_price) \<Rightarrow>
             if current_price = 0 then (cb, losing_positions)
             else
               case should_sell (risk_manager cb) m current_price (st_profit_rate st) (st_loss_rate st) of
                 Inl err \<Rightarrow> (cb, losing_positions)
               | Inr (True, rsn) \<Rightarrow>
                   (fst (execute_sell cb br now m (PyNum current_price) rsn), losing_positions)
               | Inr (False, rsn) \<Rightarrow>
                   (case get_position_pnl (risk_manager cb) m current_price of
                      Inl err \<Rightarrow> (cb, losing_positions)
                    | Inr None \<Rightarrow> (cb, losing_positions)
                    | Inr (Some (pnl, pnl_rate)) \<Rightarrow>
                        if pnl_rate < - 5 then
                          (case position_get_entry_time position of
                             Inl err \<Rightarrow> (cb, losing_positions)
                           | Inr entry_time' \<Rightarrow>
                               let days_held = (now - entry_time') div 86400
                               in if days_held \<ge> 1 then
                                    (case position_item_entry_price position of
                                       Inl err \<Rightarrow> (cb, losing_positions)
                                     | Inr ep \<Rightarrow>
                                         (cb, losing_positions @
                                            [\<lparr>lp_market = m, lp_entry_price = ep,
                                              lp_current_price = current_price,
                                              lp_pnl_rate = pnl_rate, lp_pnl = pnl,
                                              lp_entry_time = entry_time',
                                              lp_days_held = days_held\<rparr>]))
                                  else (cb, losing_positions))
                        else (cb, losing_positions)))"

fun manage_loop ::
  "CoinButler \<Rightarrow> broker \<Rightarrow> datetime \<Rightarrow> settings \<Rightarrow> (string \<times> Position) list \<Rightarrow> losing_position list
     \<Rightarrow> CoinButler \<times> losing_position list" where
  "manage_loop cb br now st [] losing_positions = (cb, losing_positions)"
| "manage_loop cb br now st (mp # rest) losing_positions =
     (let (cb1, losing1) = manage_one cb br now st mp losing_positions
      in manage_loop cb1 br now st rest losing1)"

text \<open>
  \<open>_manage_positions\<close>. \<open>_analyze_position_swap\<close> is taken as a parameter
  (its effect on the engine); each call of it is recorded in
  \<open>swap_analyses\<close> with the list it was given.
\<close>

definition manage_positions ::
  "(CoinButler \<Rightarrow> losing_position list \<Rightarrow> CoinButler) \<Rightarrow> CoinButler \<Rightarrow> broker \<Rightarrow> datetime \<Rightarrow> settings
     \<Rightarrow> CoinButler" where
  "manage_positions analyze_position_swap cb br now st =
     (let open_positions = get_open_positions (risk_manager cb);
          (cb1, losing_positions) = manage_loop cb br now st open_positions []
      in if losing_positions \<noteq> [] \<and> ai_analyzer cb1 = Some True
            \<and> (case last_swap_check cb1 of None \<Rightarrow> False | Some t \<Rightarrow> now - t > 300)
         then (analyze_position_swap
                 (cb1\<lparr>swap_analyses := swap_analyses cb1 @ [losing_positions]\<rparr>) losing_positions)
                \<lparr>last_swap_check := Some now\<rparr>
         else if last_swap_check cb1 = None then cb1\<lparr>last_swap_check := Some now\<rparr>
         else cb1)"

subsection \<open>Sample engines\<close>

definition sample_db :: "recommendation_row list" where
  "sample_db =
     [\<lparr>rec_id = 7, rec_timestamp = 100, rec_market = ''KRW-BTC'', rec_recommended_coin = ''BTC'',
       rec_confidence = 8, rec_executed = True, rec_execution_price = Some 100,
       rec_exit_price = None, rec_exit_timestamp = None, rec_actual_return = None,
       rec_holding_days = None, rec_success = None\<rparr>]"

definition sample_engine :: CoinButler where
  "sample_engine =
     \<lparr>risk_manager = ledger_one_open, tracker_db = sample_db, ai_analyzer = Some True,
      last_swap_check = Some 0, orders = [], notifications = [], tracker_calls = [],
      swap_analyses = []\<rparr>"

text \<open>An exchange that fills every sell order at once at 101, or quotes 90.\<close>

definition filling_broker :: broker where
  "filling_broker =
     \<lparr>price_of = (\<lambda>m. Inr (Some 90)),
      sell_order_uuid = (\<lambda>m q. Some ''uuid-1''),
      order_info_first = (\<lambda>u. Some \<lparr>oi_state = ''done'', oi_executed_volume = Some 2,
                                     oi_avg_price = Some 101\<rparr>),
      order_info_second = (\<lambda>u. None)\<rparr>"

definition sample_decision :: decision where
  "sample_decision =
     \<lparr>sell_market = ''KRW-BTC'', sell_position = new_Position ''KRW-BTC'' 100 2 0 200,
      sell_reason = AiForecast (- 4) 13,
      buy_analysis = Some \<lparr>an_market = Some ''KRW-ETH'', an_recommended_coin = None,
                           an_expected_profit = Some 5, an_confidence = Some 9\<rparr>\<rparr>"

definition sample_settings :: settings where
  "sample_settings =
     \<lparr>st_profit_rate = 3 / 100, st_loss_rate = - 15 / 100, st_ai_confidence_threshold = 7\<rparr>"

text \<open>A buy that, if it ever ran, would place an order and report success.\<close>

definition eager_buy :: "CoinButler \<Rightarrow> analysis \<Rightarrow> settings \<Rightarrow> CoinButler \<times> pyval" where
  "eager_buy cb candidate st =
     (cb\<lparr>orders := orders cb @ [BuyOrder (str_or (an_market candidate) []) 30000]\<rparr>, PyBool True)"

definition plain_swap_analysis :: "CoinButler \<Rightarrow> losing_position list \<Rightarrow> CoinButler" where
  "plain_swap_analysis cb losing_positions = cb"

section \<open>Properties of the ledger\<close>

lemma length_open_filter_snd:
  "length (filter (\<lambda>p. status p = ''open'') (map snd ps)) =
   length (filter (\<lambda>(m, p). status p = ''open'') ps)"
  by (induction ps) auto

lemma can_open_position_iff:
  "can_open_position rm \<longleftrightarrow> int (length (get_open_positions rm)) < max_positions rm"
  unfolding can_open_position_def get_open_positions_def Let_def length_open_filter_snd
  by (rule refl)

lemma open_count_update:
  assumes "case map_of ps m of None \<Rightarrow> True | Some p \<Rightarrow> status p \<noteq> ''open''"
    and "status v = ''open''"
  shows "length (filter (\<lambda>(k, p). status p = ''open'') (AList.update m v ps)) =
         Suc (length (filter (\<lambda>(k, p). status p = ''open'') ps))"
  using assms by (induction ps) (auto split: if_splits)

lemma get_open_positions_add:
  assumes "\<not> is_open_in rm m"
  shows "length (get_open_positions
           (save_positions_to_file
              (record_trade (rm\<lparr>positions := AList.update m (new_Position m e q t a) (positions rm)\<rparr>)
                 t m act e q a pl st))) =
         Suc (length (get_open_positions rm))"
proof -
  have closed: "case map_of (positions rm) m of None \<Rightarrow> True | Some p \<Rightarrow> status p \<noteq> ''open''"
    using assms by (simp add: is_open_in_def split: option.splits)
  have "status (new_Position m e q t a) = ''open''"
    by (simp add: new_Position_def)
  from open_count_update [OF closed this] show ?thesis
    by (simp add: get_open_positions_def save_positions_to_file_def record_trade_def Let_def)
qed

text \<open>
  C5. \<open>add_position\<close> never raises the number of open positions above
  \<open>max_positions\<close>: a successful call adds exactly one open position and the
  count was below the cap, so the new count is at most the cap, and a ledger
  within the cap stays within it. The call is rejected, returning \<open>False\<close>
  and leaving the whole ledger (hence the open set) as it was, whenever the
  open count has reached the cap or the market already has an open position.
\<close>

theorem add_position_respects_cap:
  assumes "add_position rm now m e q a = (ok, rm')"
  shows "(ok \<longrightarrow> length (get_open_positions rm') = Suc (length (get_open_positions rm))
               \<and> int (length (get_open_positions rm')) \<le> max_positions rm')
       \<and> (int (length (get_open_positions rm)) \<le> max_positions rm
            \<longrightarrow> int (length (get_open_positions rm')) \<le> max_positions rm')
       \<and> (int (length (get_open_positions rm)) \<ge> max_positions rm \<or> is_open_in rm m
            \<longrightarrow> \<not> ok \<and> rm' = rm \<and> get_open_positions rm' = get_open_positions rm)
       \<and> max_positions rm' = max_positions rm"
proof (cases "can_open_position rm \<and> \<not> is_open_in rm m")
  case False
  then have "ok = False \<and> rm' = rm"
    using assms by (auto simp: add_position_def split: if_splits)
  then show ?thesis by simp
next
  case True
  then have below: "int (length (get_open_positions rm)) < max_positions rm"
    and fresh: "\<not> is_open_in rm m"
    by (simp_all add: can_open_position_iff)
  have res: "ok = True"
    "rm' = save_positions_to_file
             (record_trade (rm\<lparr>positions := AList.update m (new_Position m e q now a) (positions rm)\<rparr>)
                now m ''BUY'' e q a 0 ''position entered'')"
    using assms True by (simp_all add: add_position_def Let_def)
  have cnt: "length (get_open_positions rm') = Suc (length (get_open_positions rm))"
    unfolding res(2) by (rule get_open_positions_add [OF fresh])
  have cap: "max_positions rm' = max_positions rm"
    unfolding res(2) by (simp add: save_positions_to_file_def record_trade_def Let_def)
  from below fresh cnt cap res(1) show ?thesis by simp
qed

theorem add_position_respects_cap_witness:
  "fst (add_position ledger_two_open 10 ''KRW-XRP'' 20 5 100) = True
   \<and> length (get_open_positions (snd (add_position ledger_two_open 10 ''KRW-XRP'' 20 5 100))) = 3
   \<and> add_position (snd (add_position ledger_two_open 10 ''KRW-XRP'' 20 5 100)) 20 ''KRW-SOL'' 10 10 100
       = (False, snd (add_position ledger_two_open 10 ''KRW-XRP'' 20 5 100))"
proof -
  obtain rm3 where third: "add_position ledger_two_open 10 ''KRW-XRP'' 20 5 100 = (True, rm3)"
    by (simp add: add_position_def can_open_position_def is_open_in_def
        ledger_two_open_def new_Position_def Let_def)
  have two: "length (get_open_positions ledger_two_open) = 2"
    by (simp add: get_open_positions_def ledger_two_open_def new_Position_def)
  have cap: "max_positions ledger_two_open = 3"
    by (simp add: ledger_two_open_def)
  from add_position_respects_cap [OF third] two cap
  have full: "length (get_open_positions rm3) = 3" "max_positions rm3 = 3"
    by simp_all
  obtain ok rm4 where fourth: "add_position rm3 20 ''KRW-SOL'' 10 10 100 = (ok, rm4)"
    by (cases "add_position rm3 20 ''KRW-SOL'' 10 10 100") blast
  from add_position_respects_cap [OF fourth] full
  have "\<not> ok \<and> rm4 = rm3" by simp
  with third fourth full show ?thesis by simp
qed

section \<open>Properties of binary64 rounding\<close>





lemma round_half_even_nonneg: "0 \<le> y \<Longrightarrow> 0 \<le> round_half_even y"
  by (auto simp: round_half_even_def Let_def)



lemma f64_round_nonneg: "0 \<le> x \<Longrightarrow> 0 \<le> f64_round x"
  by (simp add: f64_round_def Let_def round_half_even_nonneg)







section \<open>The sell trigger and the daily loss limit in binary64 arithmetic\<close>

































lemmas ledger_defs =
  add_position_def close_position_def can_open_position_def is_open_in_def
  new_Position_def Position_close_position_def calculate_current_pnl_def record_trade_def
  update_daily_pnl_def save_positions_to_file_def get_daily_pnl_def Let_def


section \<open>Properties of the configuration store\<close>

lemma dict_get_restore_present:
  assumes "map_of old_values key = Some v" and "v \<noteq> PyNone" and "distinct (map fst old_values)"
  shows "dict_get (restore_old_values old_values cfg) key = v"
  using assms unfolding restore_old_values_def
proof (induction old_values arbitrary: cfg)
  case Nil
  then show ?case by simp
next
  case (Cons kv rest)
  obtain k w where kv: "kv = (k, w)" by (cases kv)
  show ?case
  proof (cases "k = key")
    case True
    with Cons.prems kv have w: "w = v" and notin: "key \<notin> fst ` set rest" by auto
    have keep: "dict_get (fold (\<lambda>(key, old_value) acc. if old_value \<noteq> PyNone
                   then AList.update key old_value acc else acc) rest c) key = dict_get c key" for c
      using notin
    proof (induction rest arbitrary: c)
      case Nil
      then show ?case by simp
    next
      case (Cons a rest)
      then show ?case
        by (cases a) (auto simp: dict_get_def update_conv')
    qed
    from True kv w Cons.prems(2) show ?thesis
      by (simp add: keep) (simp add: dict_get_def update_conv')
  next
    case False
    with Cons.prems kv have "map_of rest key = Some v" "distinct (map fst rest)" by auto
    with Cons.IH Cons.prems(2) kv show ?thesis by simp
  qed
qed

text \<open>
  C8, evaluated on the code. The configuration holds \<open>max_positions\<close> and
  \<open>last_updated\<close>; \<open>update_multiple\<close> is called with a key that is not in the
  configuration and the write of the file fails. The call returns \<open>False\<close>,
  but the new key stays in the in-memory configuration with its new value and
  \<open>last_updated\<close> holds the time of the failed call: the configuration is not
  the one before the call.
\<close>

theorem update_multiple_failed_persist_not_rolled_back:
  "update_multiple sample_config 500 False [(''min_trade_amount'', PyNum 100)] =
     (False, sample_config\<lparr>config := [(''max_positions'', PyNum 3), (''last_updated'', PyTime 500),
                                       (''min_trade_amount'', PyNum 100)]\<rparr>)
   \<and> map_of (config sample_config) ''min_trade_amount'' = None
   \<and> config (snd (update_multiple sample_config 500 False [(''min_trade_amount'', PyNum 100)]))
       \<noteq> config sample_config"
  by (simp add: update_multiple_def save_config_def restore_old_values_def dict_update_def
      dict_get_def sample_config_def Let_def)

section \<open>Properties of the exchange utilities\<close>





lemma fallback_loop_never_fills:
  "fallback_loop ex ms result = result"
  by (induction ms arbitrary: result)
     (simp_all add: self_get_current_price_def MarketAnalyzer_attributes_def)

lemma get_fallback_top_markets_empty:
  "get_fallback_top_markets ex limit = []"
  by (simp add: get_fallback_top_markets_def fallback_loop_never_fills)

text \<open>
  C9, evaluated on the code. The market list cannot be fetched while the price
  endpoint still answers for every market. \<open>get_daily_trade_volume_ranking\<close>
  then returns the empty list, not the ten fallback markets with their
  prices: the fallback asks \<open>self\<close> for \<open>get_current_price\<close>, which a
  \<open>MarketAnalyzer\<close> does not have, and skips every market on the resulting
  exception.
\<close>

theorem ranking_fallback_is_empty:
  "get_daily_trade_volume_ranking outage_exchange 10 = []
   \<and> api_get_current_price outage_exchange ''KRW-BTC'' = Inr (Some 50000)
   \<and> slice_to 10 fallback_markets = fallback_markets"
  by (simp add: get_daily_trade_volume_ranking_def ranking_from_exchange_def
      get_fallback_top_markets_empty outage_exchange_def slice_to_def fallback_markets_def)

section \<open>Properties of the recommendation tracker and the engine\<close>

lemma update_without_execution_price:
  "update_recommendation_result db now rid None (Some x) ts = (False, db)"
  by (simp add: update_recommendation_result_def update_recommendation_body_def)

lemma exit_update_loop_effect:
  "tracker_db (exit_update_loop cb now m x recs) = tracker_db cb
   \<and> (tracker_calls (exit_update_loop cb now m x recs) = tracker_calls cb
      \<or> (\<exists>rid. tracker_calls (exit_update_loop cb now m x recs) =
             tracker_calls cb @
               [\<lparr>call_id = rid, call_execution_price = None, call_exit_price = Some x,
                 call_exit_timestamp = Some now, call_result = False\<rparr>]))"
  by (induction recs) (auto simp: update_without_execution_price split: option.splits)

text \<open>
  C3. \<open>update_recommendation_result\<close> called without an execution price and
  with an exit price returns \<open>False\<close> and leaves the table as it was. The
  sell-side path \<open>_update_ai_recommendation_exit\<close> leaves the table as it was
  for every market and price, and each call it makes of
  \<open>update_recommendation_result\<close> is of that kind: no execution price, the
  exit price of the sale, result \<open>False\<close>.
\<close>

theorem exit_update_never_fills:
  "update_recommendation_result db now rid None (Some x) ts = (False, db)
   \<and> tracker_db (update_ai_recommendation_exit cb now m x) = tracker_db cb
   \<and> (\<forall>c \<in> set (tracker_calls (update_ai_recommendation_exit cb now m x)).
         c \<in> set (tracker_calls cb)
         \<or> (call_execution_price c = None \<and> call_exit_price c = Some x \<and> \<not> call_result c))"
proof -
  let ?recs = "get_recent_recommendations (tracker_db cb) 50"
  from exit_update_loop_effect [of cb now m x ?recs]
  have db: "tracker_db (update_ai_recommendation_exit cb now m x) = tracker_db cb"
    and calls: "tracker_calls (update_ai_recommendation_exit cb now m x) = tracker_calls cb
      \<or> (\<exists>rid. tracker_calls (update_ai_recommendation_exit cb now m x) =
             tracker_calls cb @
               [\<lparr>call_id = rid, call_execution_price = None, call_exit_price = Some x,
                 call_exit_timestamp = Some now, call_result = False\<rparr>])"
    by (simp_all add: update_ai_recommendation_exit_def)
  from calls have "\<forall>c \<in> set (tracker_calls (update_ai_recommendation_exit cb now m x)).
         c \<in> set (tracker_calls cb)
         \<or> (call_execution_price c = None \<and> call_exit_price c = Some x \<and> \<not> call_result c)"
    by auto
  with db update_without_execution_price show ?thesis by blast
qed

theorem exit_update_never_fills_witness:
  "tracker_calls (update_ai_recommendation_exit sample_engine 500 ''KRW-BTC'' 101) =
     [\<lparr>call_id = 7, call_execution_price = None, call_exit_price = Some 101,
       call_exit_timestamp = Some 500, call_result = False\<rparr>]
   \<and> tracker_db (update_ai_recommendation_exit sample_engine 500 ''KRW-BTC'' 101) = sample_db
   \<and> rec_exit_price (hd sample_db) = None"
proof -
  have calls: "tracker_calls (update_ai_recommendation_exit sample_engine 500 ''KRW-BTC'' 101) =
     [\<lparr>call_id = 7, call_execution_price = None, call_exit_price = Some 101,
       call_exit_timestamp = Some 500, call_result = False\<rparr>]"
    by (simp add: update_ai_recommendation_exit_def get_recent_recommendations_def
        newest_open_recommendation_def update_without_execution_price
        sample_engine_def sample_db_def)
  from exit_update_never_fills [where cb = sample_engine and now = 500 and m = "''KRW-BTC''" and x = 101]
  have "tracker_db (update_ai_recommendation_exit sample_engine 500 ''KRW-BTC'' 101) = sample_db"
    by (simp add: sample_engine_def)
  with calls show ?thesis by (simp add: sample_db_def)
qed

lemma execute_sell_returns_None:
  "snd (execute_sell cb br now m current_price rsn) = PyNone"
  by (simp add: execute_sell_def Let_def split: option.splits sum.splits prod.splits)

lemma execute_rebalancing_is_sell_only:
  "execute_rebalancing execute_buy cb br now d st =
     fst (execute_sell cb br now (sell_market d) (PyStr ''REBALANCING'') (sell_reason d))"
proof -
  obtain cb1 success where
    s: "execute_sell cb br now (sell_market d) (PyStr ''REBALANCING'') (sell_reason d) = (cb1, success)"
    by (cases "execute_sell cb br now (sell_market d) (PyStr ''REBALANCING'') (sell_reason d)")
  with execute_sell_returns_None [of cb br now "sell_market d" "PyStr ''REBALANCING''" "sell_reason d"]
  have "success = PyNone" by simp
  with s show ?thesis
    by (simp add: execute_rebalancing_def split: option.splits)
qed

text \<open>
  C1, evaluated on the code. The engine holds an open position in KRW-BTC and
  is given a rebalancing decision whose new opportunity is KRW-ETH; the
  exchange fills the sell order at once. The position is sold and closed and
  the sell notification goes out, but no buy order is placed and no
  rebalancing notification is sent, although the buy handed to the engine
  would place an order and report success whenever it ran.
\<close>

theorem rebalancing_sell_without_buy:
  "orders (execute_rebalancing eager_buy sample_engine filling_broker 50000 sample_decision sample_settings)
     = [SellOrder ''KRW-BTC'' 2]
   \<and> map_option status (map_of (positions (risk_manager
        (execute_rebalancing eager_buy sample_engine filling_broker 50000 sample_decision sample_settings)))
        ''KRW-BTC'') = Some ''closed''
   \<and> notifications (execute_rebalancing eager_buy sample_engine filling_broker 50000 sample_decision sample_settings)
     = [NotifySell ''KRW-BTC'' 101 202 2 1 (AiForecast (- 4) 13)]
   \<and> map_option an_market (buy_analysis sample_decision) = Some (Some ''KRW-ETH'')"
  by (simp add: execute_rebalancing_is_sell_only execute_sell_def sample_engine_def
      filling_broker_def sample_decision_def ledger_one_open_def get_or_def ledger_defs
      update_ai_recommendation_exit_def get_recent_recommendations_def sample_db_def
      newest_open_recommendation_def update_without_execution_price)

lemma manage_one_collects_nothing:
  "snd (manage_one cb br now st mp losing) = losing"
  by (simp add: manage_one_def position_get_entry_time_def Position_attributes_def Let_def
      split: sum.splits option.splits prod.splits bool.splits)

lemma manage_loop_collects_nothing:
  "snd (manage_loop cb br now st ps losing) = losing"
proof (induction ps arbitrary: cb losing)
  case Nil
  then show ?case by simp
next
  case (Cons mp ps)
  obtain cb1 losing1 where one: "manage_one cb br now st mp losing = (cb1, losing1)"
    by (cases "manage_one cb br now st mp losing")
  with manage_one_collects_nothing [of cb br now st mp losing] have "losing1 = losing"
    by simp
  with one Cons.IH [of cb1 losing] show ?case by simp
qed

text \<open>
  C2, evaluated on the code. The engine holds one open position, bought three
  days ago, now 10 percent under water with the stop-loss at 15 percent; the
  analyzer is enabled and the last swap check lies far more than five minutes
  back. The pass over the positions collects nothing and does not call the
  position-swap analysis.
\<close>

theorem losing_position_not_collected:
  "get_position_pnl (risk_manager sample_engine) ''KRW-BTC'' 90 = Inr (Some (- 20, - 10))
   \<and> should_sell (risk_manager sample_engine) ''KRW-BTC'' 90 (3 / 100) (- 15 / 100) = Inr (False, NoReason)
   \<and> (259200 - entry_time (new_Position ''KRW-BTC'' 100 2 0 200)) div 86400 = 3
   \<and> ai_analyzer sample_engine = Some True
   \<and> last_swap_check sample_engine = Some 0
   \<and> manage_loop sample_engine filling_broker 259200 sample_settings
        (get_open_positions (risk_manager sample_engine)) [] = (sample_engine, [])
   \<and> swap_analyses (manage_positions plain_swap_analysis sample_engine filling_broker 259200 sample_settings) = []
   \<and> manage_positions plain_swap_analysis sample_engine filling_broker 259200 sample_settings = sample_engine"
proof -
  have pnl: "get_position_pnl (risk_manager sample_engine) ''KRW-BTC'' 90 = Inr (Some (- 20, - 10))"
    by (simp add: get_position_pnl_def is_open_in_def calculate_pnl_rate_def calculate_current_pnl_def
        sample_engine_def ledger_one_open_def new_Position_def)
  have keep: "should_sell (risk_manager sample_engine) ''KRW-BTC'' 90 (3 / 100) (- 15 / 100)
              = Inr (False, NoReason)"
    by (simp add: should_sell_def pnl)
  have loop: "manage_loop sample_engine filling_broker 259200 sample_settings
        (get_open_positions (risk_manager sample_engine)) [] = (sample_engine, [])"
    by (simp add: get_open_positions_def manage_one_def position_get_entry_time_def
        Position_attributes_def sample_settings_def filling_broker_def
        should_sell_def get_position_pnl_def is_open_in_def calculate_pnl_rate_def
        calculate_current_pnl_def sample_engine_def ledger_one_open_def new_Position_def Let_def)
  have pass: "manage_positions plain_swap_analysis sample_engine filling_broker 259200 sample_settings
              = sample_engine"
    by (simp add: manage_positions_def loop) (simp add: sample_engine_def)
  show ?thesis
    using pnl keep loop pass by (simp add: new_Position_def) (simp add: sample_engine_def)
qed

end
